theory Spec2Isabelle
  imports Complex_Main "HOL-Library.AList"
begin

section \<open>Strings\<close>

text \<open>
  A JavaScript string is a sequence of UTF-16 code units. A code unit is modelled by its
  number, so that the byte-order mark (U+FEFF) and the ellipsis glyph (U+2026), which the
  parser removes, are ordinary elements. \<open>js\<close> turns an ASCII literal into such a string.
\<close>

type_synonym jsstring = "nat list"

definition js :: "string \<Rightarrow> jsstring" where
  "js = map of_char"

abbreviation (input) ch :: "char \<Rightarrow> nat" where
  "ch c \<equiv> of_char c"

text \<open>The characters the source names that cannot stand inside a literal here.\<close>

abbreviation (input) bslash :: nat where "bslash \<equiv> 92"
abbreviation (input) squote :: nat where "squote \<equiv> 39"
abbreviation (input) dquote :: nat where "dquote \<equiv> 34"

text \<open>
  \<open>String.prototype.trim\<close> removes WhiteSpace and LineTerminator code units from both ends;
  the class \<open>\s\<close> of regular expressions is the same set.
\<close>

definition is_space :: "nat \<Rightarrow> bool" where
  "is_space c = (c = 9 \<or> c = 10 \<or> c = 11 \<or> c = 12 \<or> c = 13 \<or> c = 32 \<or> c = 160
     \<or> c = 5760 \<or> (8192 \<le> c \<and> c \<le> 8202) \<or> c = 8232 \<or> c = 8233 \<or> c = 8239
     \<or> c = 8287 \<or> c = 12288 \<or> c = 65279)"

definition trim :: "jsstring \<Rightarrow> jsstring" where
  "trim s = rev (dropWhile is_space (rev (dropWhile is_space s)))"

text \<open>\<open>text.substring(a, b)\<close> and \<open>text.substring(a)\<close> for \<open>0 \<le> a \<le> b \<le> text.length\<close>.\<close>

definition substring :: "jsstring \<Rightarrow> int \<Rightarrow> int \<Rightarrow> jsstring" where
  "substring text a b = take (nat b - nat a) (drop (nat a) text)"

definition substring_from :: "jsstring \<Rightarrow> int \<Rightarrow> jsstring" where
  "substring_from text a = drop (nat a) text"

section \<open>Options\<close>

text \<open>
  The option bag after destructuring: every field has its value or its default.
\<close>

record options =
  attemptFix :: bool
  maxBlocks :: int
  preferFirst :: bool
  allowPartial :: bool

definition default_options :: options where
  "default_options =
     \<lparr>attemptFix = True, maxBlocks = 5, preferFirst = True, allowPartial = False\<rparr>"

section \<open>findJsonBoundaries\<close>

text \<open>
  The local variables of the scan. \<open>start\<close> and \<open>endi\<close> (the source's \<open>end\<close>) keep the
  source's sentinel \<open>-1\<close>.
\<close>

record scan_state =
  start :: int
  endi :: int
  depth :: int
  inString :: bool
  escapeNext :: bool

definition scan_init :: scan_state where
  "scan_init = \<lparr>start = -1, endi = -1, depth = 0, inString = False, escapeNext = False\<rparr>"

text \<open>
  The body of the \<open>for\<close> loop at index \<open>i\<close>, where \<open>char = text[i]\<close>: the state after
  it, and whether it left the loop by \<open>break\<close> (\<open>continue\<close> and falling through both go on
  to the next index).
\<close>

definition scan_body :: "nat \<Rightarrow> nat \<Rightarrow> scan_state \<Rightarrow> scan_state \<times> bool" where
  "scan_body i char st =
    (if escapeNext st then (st\<lparr>escapeNext := False\<rparr>, False)
     else if char = bslash then (st\<lparr>escapeNext := True\<rparr>, False)
     else if char = dquote \<and> \<not> escapeNext st then (st\<lparr>inString := \<not> inString st\<rparr>, False)
     else if \<not> inString st then
       (if char = ch CHR ''{'' \<or> char = ch CHR ''['' then
          (st\<lparr>start := (if start st = -1 then int i else start st), depth := depth st + 1\<rparr>,
           False)
        else if char = ch CHR ''}'' \<or> char = ch CHR '']'' then
          (if depth st - 1 = 0 \<and> start st \<noteq> -1
           then (st\<lparr>depth := depth st - 1, endi := int i + 1\<rparr>, True)
           else (st\<lparr>depth := depth st - 1\<rparr>, False))
        else (st, False))
     else (st, False))"

fun scan_from :: "nat \<Rightarrow> jsstring \<Rightarrow> scan_state \<Rightarrow> scan_state" where
  "scan_from i [] st = st"
| "scan_from i (char # text') st =
    (case scan_body i char st of
       (st', True) \<Rightarrow> st'
     | (st', False) \<Rightarrow> scan_from (Suc i) text' st')"

definition scan :: "jsstring \<Rightarrow> scan_state" where
  "scan text = scan_from 0 text scan_init"

text \<open>\<open>None\<close> is the source's \<open>null\<close>.\<close>

definition findJsonBoundaries :: "options \<Rightarrow> jsstring \<Rightarrow> jsstring option" where
  "findJsonBoundaries opts text =
     (let st = scan text in
      if start st \<noteq> -1 \<and> endi st \<noteq> -1 then Some (substring text (start st) (endi st))
      else if allowPartial opts \<and> start st \<noteq> -1 then
        Some (substring_from text (start st) @ (if depth st > 0 then js ''}'' else []))
      else None)"

text \<open>
  What it means for a span to have every bracket outside a string literal matched: read
  with the scanner's own conventions for string literals and escapes, no closing bracket
  comes without an open one before it, and none stays open at the end.
\<close>

fun matched_from :: "nat \<Rightarrow> bool \<Rightarrow> bool \<Rightarrow> jsstring \<Rightarrow> bool" where
  "matched_from d ins esc [] = (d = 0)"
| "matched_from d ins esc (c # cs) =
    (if esc then matched_from d ins False cs
     else if c = bslash then matched_from d ins True cs
     else if c = dquote then matched_from d (\<not> ins) False cs
     else if ins then matched_from d ins False cs
     else if c = ch CHR ''{'' \<or> c = ch CHR ''['' then matched_from (Suc d) ins False cs
     else if c = ch CHR ''}'' \<or> c = ch CHR '']'' then
       (if d = 0 then False else matched_from (d - 1) ins False cs)
     else matched_from d ins False cs)"

definition brackets_matched :: "jsstring \<Rightarrow> bool" where
  "brackets_matched s = matched_from 0 False False s"

section \<open>Regular expressions\<close>

text \<open>
  The source rewrites and searches text with regular-expression literals. They are
  modelled by a datatype with one constructor for each construct the literals use, and a
  backtracking matcher that returns every way to match at a position, in the order in
  which the engine would try them: the first element is the match the engine finds.
\<close>

datatype citem =
    CChar nat          \<comment> \<open>one character\<close>
  | CRange nat nat     \<comment> \<open>\<open>a-z\<close>\<close>
  | CSpace             \<comment> \<open>\<open>\s\<close>\<close>
  | CNonSpace          \<comment> \<open>\<open>\S\<close>\<close>
  | CWord              \<comment> \<open>\<open>\w\<close>\<close>

datatype regex =
    Empty
  | Chr nat                  \<comment> \<open>a literal character\<close>
  | Class "citem list"       \<comment> \<open>\<open>[...]\<close>\<close>
  | NotClass "citem list"    \<comment> \<open>\<open>[^...]\<close>\<close>
  | AnyChar                  \<comment> \<open>\<open>.\<close>: any character but a line terminator\<close>
  | InputStart               \<comment> \<open>\<open>^\<close> without the \<open>m\<close> flag\<close>
  | InputEnd                 \<comment> \<open>\<open>$\<close> without the \<open>m\<close> flag\<close>
  | LineStart                \<comment> \<open>\<open>^\<close> with the \<open>m\<close> flag\<close>
  | LineEnd                  \<comment> \<open>\<open>$\<close> with the \<open>m\<close> flag\<close>
  | WordBoundary             \<comment> \<open>\<open>\b\<close>\<close>
  | Then regex regex         \<comment> \<open>concatenation\<close>
  | Or regex regex           \<comment> \<open>\<open>a|b\<close>\<close>
  | Many regex               \<comment> \<open>\<open>a*\<close>\<close>
  | ManyLazy regex           \<comment> \<open>\<open>a*?\<close>\<close>
  | Capture nat regex        \<comment> \<open>the capturing group with this number\<close>

definition is_line_terminator :: "nat \<Rightarrow> bool" where
  "is_line_terminator c = (c = 10 \<or> c = 13 \<or> c = 8232 \<or> c = 8233)"

definition is_word :: "nat \<Rightarrow> bool" where
  "is_word c = ((ch CHR ''a'' \<le> c \<and> c \<le> ch CHR ''z'') \<or> (ch CHR ''A'' \<le> c \<and> c \<le> ch CHR ''Z'')
     \<or> (ch CHR ''0'' \<le> c \<and> c \<le> ch CHR ''9'') \<or> c = ch CHR ''_'')"

fun in_citem :: "nat \<Rightarrow> citem \<Rightarrow> bool" where
  "in_citem c (CChar x) = (c = x)"
| "in_citem c (CRange lo hi) = (lo \<le> c \<and> c \<le> hi)"
| "in_citem c CSpace = is_space c"
| "in_citem c CNonSpace = (\<not> is_space c)"
| "in_citem c CWord = is_word c"

definition in_class :: "citem list \<Rightarrow> nat \<Rightarrow> bool" where
  "in_class items c = list_ex (in_citem c) items"

text \<open>
  A position of the matcher: the text before it (nearest character first), the text
  from it on, and the groups captured so far (latest first).
\<close>

record mstate =
  behind :: jsstring
  rest :: jsstring
  caps :: "(nat \<times> jsstring) list"

definition eat :: "(nat \<Rightarrow> bool) \<Rightarrow> mstate \<Rightarrow> mstate list" where
  "eat P st =
     (case rest st of
        [] \<Rightarrow> []
      | c # cs \<Rightarrow> if P c then [st\<lparr>behind := c # behind st, rest := cs\<rparr>] else [])"

definition check :: "bool \<Rightarrow> mstate \<Rightarrow> mstate list" where
  "check b st = (if b then [st] else [])"

definition at_word_boundary :: "mstate \<Rightarrow> bool" where
  "at_word_boundary st =
     ((case behind st of [] \<Rightarrow> False | c # _ \<Rightarrow> is_word c)
        \<noteq> (case rest st of [] \<Rightarrow> False | c # _ \<Rightarrow> is_word c))"

text \<open>
  Repetition. An iteration that consumes nothing is rejected, as the engine does, so
  each iteration shortens the rest of the text, and the number of characters left
  (the first call's \<open>n\<close>) bounds the number of iterations.
\<close>

fun many :: "(mstate \<Rightarrow> mstate list) \<Rightarrow> nat \<Rightarrow> mstate \<Rightarrow> mstate list" where
  "many m 0 st = [st]"
| "many m (Suc n) st =
     concat (map (many m n) (filter (\<lambda>st'. length (rest st') < length (rest st)) (m st))) @ [st]"

fun many_lazy :: "(mstate \<Rightarrow> mstate list) \<Rightarrow> nat \<Rightarrow> mstate \<Rightarrow> mstate list" where
  "many_lazy m 0 st = [st]"
| "many_lazy m (Suc n) st =
     st # concat (map (many_lazy m n) (filter (\<lambda>st'. length (rest st') < length (rest st)) (m st)))"

definition capture :: "nat \<Rightarrow> mstate \<Rightarrow> mstate \<Rightarrow> mstate" where
  "capture k st st' =
     st'\<lparr>caps := (k, take (length (rest st) - length (rest st')) (rest st)) # caps st'\<rparr>"

primrec rmatch :: "regex \<Rightarrow> mstate \<Rightarrow> mstate list" where
  "rmatch Empty st = [st]"
| "rmatch (Chr x) st = eat (\<lambda>c. c = x) st"
| "rmatch (Class items) st = eat (in_class items) st"
| "rmatch (NotClass items) st = eat (\<lambda>c. \<not> in_class items c) st"
| "rmatch AnyChar st = eat (\<lambda>c. \<not> is_line_terminator c) st"
| "rmatch InputStart st = check (behind st = []) st"
| "rmatch InputEnd st = check (rest st = []) st"
| "rmatch LineStart st =
     check (case behind st of [] \<Rightarrow> True | c # _ \<Rightarrow> is_line_terminator c) st"
| "rmatch LineEnd st =
     check (case rest st of [] \<Rightarrow> True | c # _ \<Rightarrow> is_line_terminator c) st"
| "rmatch WordBoundary st = check (at_word_boundary st) st"
| "rmatch (Then a b) st = concat (map (rmatch b) (rmatch a st))"
| "rmatch (Or a b) st = rmatch a st @ rmatch b st"
| "rmatch (Many a) st = many (rmatch a) (length (rest st)) st"
| "rmatch (ManyLazy a) st = many_lazy (rmatch a) (length (rest st)) st"
| "rmatch (Capture k a) st = map (capture k st) (rmatch a st)"

text \<open>The match the engine finds at the position after \<open>bef\<close>, if any.\<close>

definition match_at :: "regex \<Rightarrow> jsstring \<Rightarrow> jsstring \<Rightarrow> mstate option" where
  "match_at r bef s =
     (case rmatch r \<lparr>behind = bef, rest = s, caps = []\<rparr> of [] \<Rightarrow> None | m # _ \<Rightarrow> Some m)"

definition captured :: "mstate \<Rightarrow> nat \<Rightarrow> jsstring" where
  "captured m k = (case map_of (caps m) k of None \<Rightarrow> [] | Some s \<Rightarrow> s)"

text \<open>
  \<open>s.match(r)\<close> for a regular expression without the \<open>g\<close> flag: the first position, from
  the left, with a match. The result carries the text before the match (reversed).
\<close>

fun search_from :: "regex \<Rightarrow> jsstring \<Rightarrow> jsstring \<Rightarrow> (jsstring \<times> mstate) option" where
  "search_from r bef [] = map_option (Pair bef) (match_at r bef [])"
| "search_from r bef (c # cs) =
     (case match_at r bef (c # cs) of
        Some m \<Rightarrow> Some (bef, m)
      | None \<Rightarrow> search_from r (c # bef) cs)"

definition search :: "regex \<Rightarrow> jsstring \<Rightarrow> (jsstring \<times> mstate) option" where
  "search r s = search_from r [] s"

text \<open>
  Replacement text: literal pieces and group references \<open>$k\<close>. A group that took no
  part in the match stands for the empty string.
\<close>

datatype titem = TLit jsstring | TGroup nat

fun expand_item :: "mstate \<Rightarrow> titem \<Rightarrow> jsstring" where
  "expand_item m (TLit s) = s"
| "expand_item m (TGroup k) = captured m k"

definition expand :: "titem list \<Rightarrow> mstate \<Rightarrow> jsstring" where
  "expand tmpl m = concat (map (expand_item m) tmpl)"

text \<open>\<open>s.replace(r, tmpl)\<close> without the \<open>g\<close> flag: the first match only.\<close>

definition replace_first :: "regex \<Rightarrow> titem list \<Rightarrow> jsstring \<Rightarrow> jsstring" where
  "replace_first r tmpl s =
     (case search r s of
        None \<Rightarrow> s
      | Some (bef, m) \<Rightarrow> rev bef @ expand tmpl m @ rest m)"

text \<open>
  \<open>s.replace(r, tmpl)\<close> with the \<open>g\<close> flag, from the position after \<open>bef\<close>. After a match
  of \<open>n > 0\<close> characters the next attempt is at its end: \<open>skip\<close> counts the characters of
  the match still to pass. After an empty match the engine copies one character and
  goes on.
\<close>

fun replace_from :: "regex \<Rightarrow> titem list \<Rightarrow> nat \<Rightarrow> jsstring \<Rightarrow> jsstring \<Rightarrow> jsstring" where
  "replace_from r tmpl skip bef [] =
     (if skip = 0 then (case match_at r bef [] of Some m \<Rightarrow> expand tmpl m | None \<Rightarrow> [])
      else [])"
| "replace_from r tmpl skip bef (c # cs) =
     (if 0 < skip then replace_from r tmpl (skip - 1) (c # bef) cs
      else
        (case match_at r bef (c # cs) of
           None \<Rightarrow> c # replace_from r tmpl 0 (c # bef) cs
         | Some m \<Rightarrow>
             (if length (rest m) = length (c # cs)
              then expand tmpl m @ c # replace_from r tmpl 0 (c # bef) cs
              else expand tmpl m
                     @ replace_from r tmpl (length cs - length (rest m)) (c # bef) cs)))"

definition replace_all :: "regex \<Rightarrow> titem list \<Rightarrow> jsstring \<Rightarrow> jsstring" where
  "replace_all r tmpl s = replace_from r tmpl 0 [] s"

text \<open>
  The matches that a loop \<open>while ((match = r.exec(text)) !== null)\<close> over a regular
  expression with the \<open>g\<close> flag sees, in order. Each attempt starts where the last match
  ended. (None of the patterns used this way can match the empty string.)
\<close>

fun exec_from :: "regex \<Rightarrow> nat \<Rightarrow> jsstring \<Rightarrow> jsstring \<Rightarrow> mstate list" where
  "exec_from r skip bef [] = []"
| "exec_from r skip bef (c # cs) =
     (if 0 < skip then exec_from r (skip - 1) (c # bef) cs
      else
        (case match_at r bef (c # cs) of
           None \<Rightarrow> exec_from r 0 (c # bef) cs
         | Some m \<Rightarrow> m # exec_from r (length cs - length (rest m)) (c # bef) cs))"

definition exec_all :: "regex \<Rightarrow> jsstring \<Rightarrow> mstate list" where
  "exec_all r s = exec_from r 0 [] s"

text \<open>Shorthands for writing the patterns.\<close>

definition seq :: "regex list \<Rightarrow> regex" where
  "seq rs = foldr Then rs Empty"

definition lit :: "jsstring \<Rightarrow> regex" where
  "lit s = seq (map Chr s)"

definition opt :: "regex \<Rightarrow> regex" where
  "opt r = Or r Empty"

definition many1 :: "regex \<Rightarrow> regex" where
  "many1 r = Then r (Many r)"

text \<open>
  A letter under the \<open>i\<close> flag matches in either case. (Without the \<open>u\<close> flag no character
  outside ASCII is equated with an ASCII letter.)
\<close>

definition either_case :: "nat \<Rightarrow> regex" where
  "either_case c =
     (if ch CHR ''a'' \<le> c \<and> c \<le> ch CHR ''z'' then Class [CChar c, CChar (c - 32)]
      else if ch CHR ''A'' \<le> c \<and> c \<le> ch CHR ''Z'' then Class [CChar c, CChar (c + 32)]
      else Chr c)"

definition lit_i :: "jsstring \<Rightarrow> regex" where
  "lit_i s = seq (map either_case s)"

section \<open>fixCommonJsonIssues\<close>

text \<open>
  The rewriting steps, in the source's order, each with its regular expression as
  written there. (The per-call cache only stores what this function computes for the
  same argument, so the result does not depend on it.)
\<close>

abbreviation (input) spaces :: regex where
  "spaces \<equiv> Many (Class [CSpace])"

definition re_bom :: regex where
  \<comment> \<open>\<open>/^\uFEFF/\<close>\<close>
  "re_bom = seq [InputStart, Chr 65279]"

definition re_line_comment :: regex where
  \<comment> \<open>\<open>/\/\/.*$/gm\<close>\<close>
  "re_line_comment = seq [lit (js ''//''), Many AnyChar, LineEnd]"

definition re_block_comment :: regex where
  \<comment> \<open>\<open>/\/\*[\s\S]*?\*\//g\<close>\<close>
  "re_block_comment = seq [lit (js ''/*''), ManyLazy (Class [CSpace, CNonSpace]), lit (js ''*/'')]"

definition re_hash_comment :: regex where
  \<comment> \<open>\<open>/^\s*#.*$/gm\<close>\<close>
  "re_hash_comment = seq [LineStart, spaces, Chr (ch CHR ''#''), Many AnyChar, LineEnd]"

definition re_escaped_squote :: regex where
  \<comment> \<open>\<open>/\\'/g\<close>\<close>
  "re_escaped_squote = lit [bslash, squote]"

definition re_escaped_dquote :: regex where
  \<comment> \<open>\<open>/\\"/g\<close>\<close>
  "re_escaped_dquote = lit [bslash, dquote]"

definition re_comma_before_close :: regex where
  \<comment> \<open>\<open>/,(\s*[}\]])/g\<close>\<close>
  "re_comma_before_close =
     seq [Chr (ch CHR '',''), Capture 1 (seq [spaces, Class [CChar (ch CHR ''}''), CChar (ch CHR '']'')]])]"

definition re_comma_at_end :: regex where
  \<comment> \<open>\<open>/,\s*$/g\<close>\<close>
  "re_comma_at_end = seq [Chr (ch CHR '',''), spaces, InputEnd]"

definition re_unquoted_key :: regex where
  \<comment> \<open>\<open>/([{,]\s*)([a-zA-Z_$][\w\-\.]*)\s*:/g\<close>\<close>
  "re_unquoted_key =
     seq [Capture 1 (seq [Class [CChar (ch CHR ''{''), CChar (ch CHR '','')], spaces]),
          Capture 2 (seq [Class [CRange (ch CHR ''a'') (ch CHR ''z''), CRange (ch CHR ''A'') (ch CHR ''Z''),
                                 CChar (ch CHR ''_''), CChar (ch CHR ''$'')],
                          Many (Class [CWord, CChar (ch CHR ''-''), CChar (ch CHR ''.'')])]),
          spaces, Chr (ch CHR '':'')]"

definition re_single_quoted :: regex where
  \<comment> \<open>\<open>/'([^'\\]*(\\.[^'\\]*)*)'/g\<close>\<close>
  "re_single_quoted =
     seq [Chr squote,
          Capture 1 (seq [Many (NotClass [CChar squote, CChar bslash]),
                          Many (Capture 2 (seq [Chr bslash, AnyChar,
                                                Many (NotClass [CChar squote, CChar bslash])]))]),
          Chr squote]"

definition re_value_word :: "jsstring \<Rightarrow> regex" where
  \<comment> \<open>\<open>/:\s*True\b/gi\<close> and its like\<close>
  "re_value_word w = seq [Chr (ch CHR '':''), spaces, lit_i w, WordBoundary]"

definition re_bare_word :: "jsstring \<Rightarrow> regex" where
  \<comment> \<open>\<open>/\bTrue\b/g\<close> and its like\<close>
  "re_bare_word w = seq [WordBoundary, lit w, WordBoundary]"

definition re_escaped_quote_in_string :: regex where
  \<comment> \<open>\<open>/"([^"]*)\\"([^"]*)"/\<close>\<close>
  "re_escaped_quote_in_string =
     seq [Chr dquote, Capture 1 (Many (NotClass [CChar dquote])), Chr bslash, Chr dquote,
          Capture 2 (Many (NotClass [CChar dquote])), Chr dquote]"

definition re_dots :: regex where
  \<comment> \<open>\<open>/\.\.\./g\<close>\<close>
  "re_dots = lit (js ''...'')"

definition re_ellipsis :: regex where
  \<comment> \<open>the glyph U+2026, with the \<open>g\<close> flag\<close>
  "re_ellipsis = Chr 8230"

definition close_string :: "options \<Rightarrow> jsstring \<Rightarrow> jsstring" where
  \<comment> \<open>the block under \<open>if (allowPartial)\<close>\<close>
  "close_string opts fixed =
     (if allowPartial opts then
        (let quoteCount = length (filter (\<lambda>c. c = dquote) fixed)
         in if quoteCount mod 2 \<noteq> 0 then fixed @ [dquote] else fixed)
      else fixed)"

definition fix_steps :: "options \<Rightarrow> (jsstring \<Rightarrow> jsstring) list" where
  "fix_steps opts =
    [replace_first re_bom [],
     replace_all re_line_comment [],
     replace_all re_block_comment [],
     replace_all re_hash_comment [],
     replace_all re_escaped_squote [TLit [squote]],
     replace_all re_escaped_dquote [TLit [dquote]],
     close_string opts,
     replace_all re_comma_before_close [TGroup 1],
     replace_all re_comma_at_end [],
     replace_all re_unquoted_key [TGroup 1, TLit [dquote], TGroup 2, TLit [dquote, ch CHR '':'']],
     replace_all re_single_quoted [TLit [dquote], TGroup 1, TLit [dquote]],
     replace_all (re_value_word (js ''True'')) [TLit (js '': true'')],
     replace_all (re_value_word (js ''False'')) [TLit (js '': false'')],
     replace_all (re_value_word (js ''None'')) [TLit (js '': null'')],
     replace_all (re_value_word (js ''undefined'')) [TLit (js '': null'')],
     replace_all (re_bare_word (js ''True'')) [TLit (js ''true'')],
     replace_all (re_bare_word (js ''False'')) [TLit (js ''false'')],
     replace_all (re_bare_word (js ''None'')) [TLit (js ''null'')],
     replace_first re_escaped_quote_in_string
       [TLit [dquote], TGroup 1, TLit [bslash, dquote], TGroup 2, TLit [dquote]],
     replace_all re_dots [],
     replace_all re_ellipsis []]"

text \<open>\<open>fixed\<close> runs through the steps from first to last.\<close>

definition fixCommonJsonIssues :: "options \<Rightarrow> jsstring \<Rightarrow> jsstring" where
  "fixCommonJsonIssues opts jsonStr = foldl (\<lambda>fixed step. step fixed) jsonStr (fix_steps opts)"

section \<open>JSON values and JSON.parse\<close>

text \<open>
  The values \<open>JSON.parse\<close> returns. An object is the list of its properties in the order
  of their creation. A number is the exact value of its decimal literal (the engine
  rounds it to a double; the program never computes with it).
\<close>

datatype json =
    JNull
  | JBool bool
  | JNum rat
  | JStr jsstring
  | JArr "json list"
  | JObj "(jsstring \<times> json) list"

datatype exn = SyntaxError | TypeError | RangeError

text \<open>
  \<open>JSON.parse\<close> is the language's own function, not code of the program. It is modelled
  after the JSON grammar of ECMA-404 as a recursive-descent parser: \<open>Inl SyntaxError\<close>
  is the exception it throws on text outside the grammar.
\<close>

definition is_json_ws :: "nat \<Rightarrow> bool" where
  "is_json_ws c = (c = 9 \<or> c = 10 \<or> c = 13 \<or> c = 32)"

definition skip_ws :: "jsstring \<Rightarrow> jsstring" where
  "skip_ws s = dropWhile is_json_ws s"

definition is_digit :: "nat \<Rightarrow> bool" where
  "is_digit c = (ch CHR ''0'' \<le> c \<and> c \<le> ch CHR ''9'')"

definition hex_digit :: "nat \<Rightarrow> nat option" where
  "hex_digit c =
     (if ch CHR ''0'' \<le> c \<and> c \<le> ch CHR ''9'' then Some (c - ch CHR ''0'')
      else if ch CHR ''a'' \<le> c \<and> c \<le> ch CHR ''f'' then Some (c - ch CHR ''a'' + 10)
      else if ch CHR ''A'' \<le> c \<and> c \<le> ch CHR ''F'' then Some (c - ch CHR ''A'' + 10)
      else None)"

definition hex4 :: "jsstring \<Rightarrow> nat option" where
  "hex4 s =
     (case map hex_digit s of
        [Some a, Some b, Some c, Some d] \<Rightarrow> Some (((a * 16 + b) * 16 + c) * 16 + d)
      | _ \<Rightarrow> None)"

definition unescape :: "nat \<Rightarrow> nat option" where
  "unescape e =
     (if e = dquote \<or> e = bslash \<or> e = ch CHR ''/'' then Some e
      else if e = ch CHR ''b'' then Some 8
      else if e = ch CHR ''f'' then Some 12
      else if e = ch CHR ''n'' then Some 10
      else if e = ch CHR ''r'' then Some 13
      else if e = ch CHR ''t'' then Some 9
      else None)"

text \<open>
  The characters of a string literal after its opening quote: the string (collected in
  \<open>acc\<close>, latest first) and the text after the closing quote.
\<close>

fun parse_chars :: "jsstring \<Rightarrow> jsstring \<Rightarrow> (jsstring \<times> jsstring) option" where
  "parse_chars acc [] = None"
| "parse_chars acc (c # cs) =
     (if c = dquote then Some (rev acc, cs)
      else if c < 32 then None
      else if c = bslash then
        (case cs of
           [] \<Rightarrow> None
         | e # cs' \<Rightarrow>
             if e = ch CHR ''u'' then
               (case hex4 (take 4 cs') of
                  Some u \<Rightarrow> parse_chars (u # acc) (drop 4 cs')
                | None \<Rightarrow> None)
             else
               (case unescape e of
                  Some u \<Rightarrow> parse_chars (u # acc) cs'
                | None \<Rightarrow> None))
      else parse_chars (c # acc) cs)"

definition digits_value :: "jsstring \<Rightarrow> nat" where
  "digits_value ds = foldl (\<lambda>a d. a * 10 + (d - ch CHR ''0'')) 0 ds"

text \<open>The integer part: a single \<open>0\<close>, or digits that do not start with \<open>0\<close>.\<close>

definition int_part :: "jsstring \<Rightarrow> (jsstring \<times> jsstring) option" where
  "int_part s =
     (case s of
        [] \<Rightarrow> None
      | c # cs \<Rightarrow>
          if c = ch CHR ''0'' then Some ([c], cs)
          else if is_digit c then Some (takeWhile is_digit s, dropWhile is_digit s)
          else None)"

definition frac_part :: "jsstring \<Rightarrow> (jsstring \<times> jsstring) option" where
  "frac_part s =
     (case s of
        [] \<Rightarrow> Some ([], s)
      | c # cs \<Rightarrow>
          if c = ch CHR ''.'' then
            (if takeWhile is_digit cs = [] then None
             else Some (takeWhile is_digit cs, dropWhile is_digit cs))
          else Some ([], s))"

definition exp_part :: "jsstring \<Rightarrow> (int \<times> jsstring) option" where
  "exp_part s =
     (case s of
        [] \<Rightarrow> Some (0, s)
      | c # cs \<Rightarrow>
          if c = ch CHR ''e'' \<or> c = ch CHR ''E'' then
            (let neg = (case cs of [] \<Rightarrow> False | x # _ \<Rightarrow> x = ch CHR ''-'');
                 signed = (case cs of [] \<Rightarrow> False | x # _ \<Rightarrow> x = ch CHR ''-'' \<or> x = ch CHR ''+'');
                 ds = (if signed then tl cs else cs)
             in if takeWhile is_digit ds = [] then None
                else Some ((if neg then - int (digits_value (takeWhile is_digit ds))
                            else int (digits_value (takeWhile is_digit ds))),
                           dropWhile is_digit ds))
          else Some (0, s))"

definition number_value :: "bool \<Rightarrow> jsstring \<Rightarrow> jsstring \<Rightarrow> int \<Rightarrow> rat" where
  "number_value neg ip fp e =
     (let m = of_nat (digits_value (ip @ fp)) :: rat;
          k = e - int (length fp);
          v = (if 0 \<le> k then m * 10 ^ nat k else m / 10 ^ nat (- k))
      in if neg then - v else v)"

definition parse_number :: "jsstring \<Rightarrow> (json \<times> jsstring) option" where
  "parse_number s =
     (let neg = (case s of [] \<Rightarrow> False | c # _ \<Rightarrow> c = ch CHR ''-'');
          s1 = (if neg then tl s else s)
      in case int_part s1 of
           None \<Rightarrow> None
         | Some (ip, s2) \<Rightarrow>
             (case frac_part s2 of
                None \<Rightarrow> None
              | Some (fp, s3) \<Rightarrow>
                  (case exp_part s3 of
                     None \<Rightarrow> None
                   | Some (e, s4) \<Rightarrow> Some (JNum (number_value neg ip fp e), s4))))"

definition parse_scalar :: "jsstring \<Rightarrow> (json \<times> jsstring) option" where
  "parse_scalar s =
     (if take 4 s = js ''true'' then Some (JBool True, drop 4 s)
      else if take 5 s = js ''false'' then Some (JBool False, drop 5 s)
      else if take 4 s = js ''null'' then Some (JNull, drop 4 s)
      else case s of
             [] \<Rightarrow> None
           | c # cs \<Rightarrow>
               if c = dquote then map_option (\<lambda>(str, r). (JStr str, r)) (parse_chars [] cs)
               else parse_number s)"

text \<open>
  Values, the elements of an array after \<open>[\<close> or a comma, and the members of an object
  after \<open>{\<close> or a comma. A later member with the same name replaces the value of the
  earlier one. The first argument bounds the number of nested calls; \<open>JSON_parse\<close> starts
  with more than a text of that length can need.
\<close>

fun parse_value :: "nat \<Rightarrow> jsstring \<Rightarrow> (json \<times> jsstring) option"
  and parse_elements :: "nat \<Rightarrow> json list \<Rightarrow> jsstring \<Rightarrow> (json \<times> jsstring) option"
  and parse_members :: "nat \<Rightarrow> (jsstring \<times> json) list \<Rightarrow> jsstring \<Rightarrow> (json \<times> jsstring) option"
where
  "parse_value 0 s = None"
| "parse_value (Suc n) s =
     (case skip_ws s of
        [] \<Rightarrow> None
      | c # cs \<Rightarrow>
          if c = ch CHR ''['' then
            (case skip_ws cs of
               [] \<Rightarrow> None
             | d # ds \<Rightarrow> if d = ch CHR '']'' then Some (JArr [], ds) else parse_elements n [] cs)
          else if c = ch CHR ''{'' then
            (case skip_ws cs of
               [] \<Rightarrow> None
             | d # ds \<Rightarrow> if d = ch CHR ''}'' then Some (JObj [], ds) else parse_members n [] cs)
          else parse_scalar (c # cs))"
| "parse_elements 0 acc s = None"
| "parse_elements (Suc n) acc s =
     (case parse_value n s of
        None \<Rightarrow> None
      | Some (v, r) \<Rightarrow>
          (case skip_ws r of
             [] \<Rightarrow> None
           | d # ds \<Rightarrow>
               if d = ch CHR '','' then parse_elements n (acc @ [v]) ds
               else if d = ch CHR '']'' then Some (JArr (acc @ [v]), ds)
               else None))"
| "parse_members 0 acc s = None"
| "parse_members (Suc n) acc s =
     (case skip_ws s of
        [] \<Rightarrow> None
      | q # qs \<Rightarrow>
          if q = dquote then
            (case parse_chars [] qs of
               None \<Rightarrow> None
             | Some (k, r) \<Rightarrow>
                 (case skip_ws r of
                    [] \<Rightarrow> None
                  | c # cs \<Rightarrow>
                      if c = ch CHR '':'' then
                        (case parse_value n cs of
                           None \<Rightarrow> None
                         | Some (v, r') \<Rightarrow>
                             (case skip_ws r' of
                                [] \<Rightarrow> None
                              | d # ds \<Rightarrow>
                                  if d = ch CHR '','' then parse_members n (AList.update k v acc) ds
                                  else if d = ch CHR ''}'' then Some (JObj (AList.update k v acc), ds)
                                  else None))
                      else None))
          else None)"

definition JSON_parse :: "jsstring \<Rightarrow> exn + json" where
  "JSON_parse s =
     (case parse_value (Suc (Suc (length (s @ s)))) s of
        None \<Rightarrow> Inl SyntaxError
      | Some (v, r) \<Rightarrow> if skip_ws r = [] then Inr v else Inl SyntaxError)"

section \<open>extractJson\<close>

text \<open>An entry of the \<open>results\<close> array: content and priority.\<close>

type_synonym candidate = "jsstring \<times> nat"

definition re_json_block :: regex where
  \<comment> \<open>\<open>/```(?:json|JSON)\s*\n?([\s\S]*?)\n?```/g\<close>\<close>
  "re_json_block =
     seq [lit (js ''```''), Or (lit (js ''json'')) (lit (js ''JSON'')), spaces, opt (Chr 10),
          Capture 1 (ManyLazy (Class [CSpace, CNonSpace])), opt (Chr 10), lit (js ''```'')]"

definition re_code_block :: regex where
  \<comment> \<open>\<open>/```\s*\n?([\s\S]*?)\n?```/g\<close>\<close>
  "re_code_block =
     seq [lit (js ''```''), spaces, opt (Chr 10),
          Capture 1 (ManyLazy (Class [CSpace, CNonSpace])), opt (Chr 10), lit (js ''```'')]"

definition re_inline :: regex where
  \<comment> \<open>\<open>/`([^`]+)`/g\<close>\<close>
  "re_inline = seq [Chr 96, Capture 1 (many1 (NotClass [CChar 96])), Chr 96]"

definition re_nested :: "nat \<Rightarrow> nat \<Rightarrow> regex" where
  \<comment> \<open>\<open>/(\{(?:[^{}]|(?:\{[^{}]*\}))*\})/g\<close>, and the same with \<open>[\<close> and \<open>]\<close>\<close>
  "re_nested l r =
     Capture 1 (seq [Chr l,
                     Many (Or (NotClass [CChar l, CChar r])
                              (seq [Chr l, Many (NotClass [CChar l, CChar r]), Chr r])),
                     Chr r])"

definition re_objects :: regex where
  "re_objects = re_nested (ch CHR ''{'') (ch CHR ''}'')"

definition re_arrays :: regex where
  "re_arrays = re_nested (ch CHR ''['') (ch CHR '']'')"

definition starts_json :: "jsstring \<Rightarrow> bool" where
  \<comment> \<open>\<open>content.startsWith('{') || content.startsWith('[')\<close>\<close>
  "starts_json content =
     (case content of [] \<Rightarrow> False | c # _ \<Rightarrow> c = ch CHR ''{'' \<or> c = ch CHR ''['')"

text \<open>
  One \<open>while\<close> loop over the matches of a pattern: it stops at the cap, and pushes the
  trimmed first group when that is not empty and passes the test of its class.
\<close>

fun collect :: "options \<Rightarrow> (jsstring \<Rightarrow> bool) \<Rightarrow> nat \<Rightarrow> mstate list \<Rightarrow> candidate list
                \<Rightarrow> candidate list" where
  "collect opts ok priority [] results = results"
| "collect opts ok priority (m # ms) results =
     (if maxBlocks opts \<le> int (length results) then results
      else
        (let content = trim (captured m 1)
         in if content \<noteq> [] \<and> ok content
            then collect opts ok priority ms (results @ [(content, priority)])
            else collect opts ok priority ms results))"

text \<open>The \<open>results\<close> array when \<open>extractJson\<close> returns, and the strings it returns.\<close>

definition extract_results :: "options \<Rightarrow> jsstring \<Rightarrow> candidate list" where
  "extract_results opts text =
     (let results = collect opts (\<lambda>content. True) 1 (exec_all re_json_block text) [];
          results = collect opts starts_json 2 (exec_all re_code_block text) results;
          results = collect opts starts_json 3 (exec_all re_inline text) results;
          results = collect opts (\<lambda>content. 10 < length content) 4 (exec_all re_objects text) results;
          results = collect opts (\<lambda>content. 10 < length content) 4 (exec_all re_arrays text) results
      in if preferFirst opts then sort_key snd results else results)"

definition extractJson :: "options \<Rightarrow> jsstring \<Rightarrow> jsstring list" where
  "extractJson opts text = map fst (extract_results opts text)"

section \<open>tryParseJson\<close>

record parse_result =
  success :: bool
  data :: json
  error :: "jsstring option"

definition parsed_ok :: "json \<Rightarrow> parse_result" where
  \<comment> \<open>\<open>{ success: true, data: parsed, error: null }\<close>\<close>
  "parsed_ok parsed = \<lparr>success = True, data = parsed, error = None\<rparr>"

definition parse_failed :: "jsstring \<Rightarrow> parse_result" where
  \<comment> \<open>\<open>{ success: false, data: null, error: ... }\<close>\<close>
  "parse_failed msg = \<lparr>success = False, data = JNull, error = Some msg\<rparr>"

text \<open>
  Each \<open>try { JSON.parse(...) } catch\<close> is a case distinction on the outcome of
  \<open>JSON_parse\<close>. A string is truthy when it is not empty.
\<close>

definition tryParseJson :: "options \<Rightarrow> jsstring \<Rightarrow> parse_result" where
  "tryParseJson opts jsonStr =
    (if jsonStr = [] \<or> length (trim jsonStr) = 0 then parse_failed (js ''Empty JSON string'')
     else
       (let cleanJson = trim jsonStr
        in case JSON_parse cleanJson of
             Inr parsed \<Rightarrow> parsed_ok parsed
           | Inl firstError \<Rightarrow>
               if attemptFix opts then
                 (case (case findJsonBoundaries opts cleanJson of
                          Some boundedJson \<Rightarrow>
                            if boundedJson \<noteq> [] then
                              (case JSON_parse boundedJson of Inr parsed \<Rightarrow> Some parsed | Inl e \<Rightarrow> None)
                            else None
                        | None \<Rightarrow> None) of
                    Some parsed \<Rightarrow> parsed_ok parsed
                  | None \<Rightarrow>
                      (let cleanJson = fixCommonJsonIssues opts cleanJson
                       in case JSON_parse cleanJson of
                            Inr parsed \<Rightarrow> parsed_ok parsed
                          | Inl secondError \<Rightarrow>
                              (case findJsonBoundaries opts cleanJson of
                                 Some extracted \<Rightarrow>
                                   if extracted \<noteq> [] then
                                     (case JSON_parse extracted of
                                        Inr parsed \<Rightarrow> parsed_ok parsed
                                      | Inl e \<Rightarrow>
                                          parse_failed (js ''Failed to parse JSON after all attempts''))
                                   else parse_failed (js ''Failed to parse JSON after all attempts'')
                               | None \<Rightarrow>
                                   parse_failed (js ''Failed to parse JSON after all attempts''))))
               else parse_failed (js ''Failed to parse JSON after all attempts'')))"

section \<open>unwrapResponse\<close>

definition truthy :: "json \<Rightarrow> bool" where
  "truthy v =
     (case v of
        JNull \<Rightarrow> False
      | JBool b \<Rightarrow> b
      | JNum n \<Rightarrow> n \<noteq> 0
      | JStr s \<Rightarrow> s \<noteq> []
      | JArr xs \<Rightarrow> True
      | JObj ps \<Rightarrow> True)"

definition typeof_object :: "json \<Rightarrow> bool" where
  \<comment> \<open>\<open>typeof v === 'object'\<close>\<close>
  "typeof_object v =
     (case v of JNull \<Rightarrow> True | JArr xs \<Rightarrow> True | JObj ps \<Rightarrow> True | _ \<Rightarrow> False)"

definition property :: "json \<Rightarrow> jsstring \<Rightarrow> json option" where
  \<comment> \<open>the property of a parsed object under a name that no array has; \<open>None\<close> when \<open>name in v\<close> is false\<close>
  "property v name = (case v of JObj ps \<Rightarrow> map_of ps name | _ \<Rightarrow> None)"

text \<open>
  The \<open>while\<close> loop on its two variables \<open>current\<close> and \<open>attempts\<close>; \<open>break\<close> and the end of
  the loop return them.
\<close>

function unwrap_loop :: "options \<Rightarrow> nat \<Rightarrow> json \<Rightarrow> nat \<Rightarrow> json \<times> nat" where
  "unwrap_loop opts maxAttempts current attempts =
    (if attempts < maxAttempts \<and> truthy current \<and> typeof_object current then
       (case property current (js ''response'') of
          None \<Rightarrow> (current, attempts)
        | Some response \<Rightarrow>
            if truthy response then
              (case response of
                 JStr str \<Rightarrow>
                   (let parsed = tryParseJson opts str
                    in if success parsed
                       then unwrap_loop opts maxAttempts (data parsed) (attempts + 1)
                       else (current, attempts))
               | JArr xs \<Rightarrow> unwrap_loop opts maxAttempts response (attempts + 1)
               | JObj ps \<Rightarrow> unwrap_loop opts maxAttempts response (attempts + 1)
               | JNull \<Rightarrow> unwrap_loop opts maxAttempts response (attempts + 1)
               | _ \<Rightarrow> (current, attempts))
            else (current, attempts))
     else (current, attempts))"
  by pat_completeness auto
termination
  by (relation "measure (\<lambda>(opts, maxAttempts, current, attempts). maxAttempts - attempts)") auto

definition unwrapResponse :: "options \<Rightarrow> json \<Rightarrow> json" where
  \<comment> \<open>every call leaves \<open>maxAttempts\<close> at its default, 2\<close>
  "unwrapResponse opts d = fst (unwrap_loop opts 2 d 0)"

text \<open>
  One envelope descent, as the loop body performs it: the value that replaces
  \<open>current\<close>, or \<open>None\<close> where the body leaves the loop. \<open>descents opts k d\<close> is the value after
  \<open>k\<close> descents in a row from \<open>d\<close>, if that many are possible.
\<close>

definition descend :: "options \<Rightarrow> json \<Rightarrow> json option" where
  "descend opts current =
     (case property current (js ''response'') of
        None \<Rightarrow> None
      | Some response \<Rightarrow>
          if truthy response then
            (case response of
               JStr str \<Rightarrow>
                 (let parsed = tryParseJson opts str
                  in if success parsed then Some (data parsed) else None)
             | JArr xs \<Rightarrow> Some response
             | JObj ps \<Rightarrow> Some response
             | JNull \<Rightarrow> Some response
             | _ \<Rightarrow> None)
          else None)"

fun descents :: "options \<Rightarrow> nat \<Rightarrow> json \<Rightarrow> json option" where
  "descents opts 0 d = Some d"
| "descents opts (Suc k) d =
     (case descend opts d of None \<Rightarrow> None | Some d' \<Rightarrow> descents opts k d')"

section \<open>parseLLMJson\<close>

text \<open>
  The argument \<open>response\<close>: \<open>null\<close>, \<open>undefined\<close>, a string, or any other value, which
  counts only through what \<open>String(response)\<close> does: it returns a string or throws.
\<close>

datatype jsvalue =
    VNull
  | VUndefined
  | VString jsstring
  | VOther "exn + jsstring"

definition re_fast_path :: regex where
  \<comment> \<open>\<open>/```json\s*\n([\s\S]*?)\n```/\<close>\<close>
  "re_fast_path =
     seq [lit (js ''```json''), spaces, Chr 10,
          Capture 1 (ManyLazy (Class [CSpace, CNonSpace])), Chr 10, lit (js ''```'')]"

definition fast_path :: "jsstring \<Rightarrow> json option" where
  "fast_path response =
     (case search re_fast_path response of
        None \<Rightarrow> None
      | Some (bef, jsonMatch) \<Rightarrow>
          (let extracted = trim (captured jsonMatch 1)
           in case JSON_parse extracted of Inr parsed \<Rightarrow> Some parsed | Inl e \<Rightarrow> None))"

definition failure_record :: json where
  "failure_record =
     JObj [(js ''success'', JBool False), (js ''data'', JNull),
           (js ''error'', JStr (js ''No valid JSON found in the response'')),
           (js ''rawJson'', JNull)]"

text \<open>The \<open>for\<close> loop over the sorted candidates: the data of the first that parses.\<close>

fun first_parsed :: "options \<Rightarrow> jsstring list \<Rightarrow> json option" where
  "first_parsed opts [] = None"
| "first_parsed opts (jsonStr # others) =
     (let result = tryParseJson opts jsonStr
      in if success result then Some (data result) else first_parsed opts others)"

text \<open>The function from the fast path on, for a string that is not blank.\<close>

definition parse_text :: "options \<Rightarrow> jsstring \<Rightarrow> json" where
  "parse_text opts response =
    (case fast_path response of
       Some parsed \<Rightarrow> parsed
     | None \<Rightarrow>
         (let directResult = tryParseJson opts response
          in if success directResult then unwrapResponse opts (data directResult)
             else
               (let candidates = extractJson opts response;
                    sortedCandidates = sort_key (\<lambda>a. - int (length a)) candidates
                in case first_parsed opts sortedCandidates of
                     Some d \<Rightarrow> unwrapResponse opts d
                   | None \<Rightarrow>
                       if attemptFix opts then
                         (case findJsonBoundaries opts response of
                            Some aggressiveJson \<Rightarrow>
                              if aggressiveJson \<noteq> [] then
                                (let result = tryParseJson opts aggressiveJson
                                 in if success result then unwrapResponse opts (data result)
                                    else failure_record)
                              else failure_record
                          | None \<Rightarrow> failure_record)
                       else failure_record)))"

text \<open>
  The guards on the input, then the rest. The result is \<open>Inr\<close> of the value returned, or
  \<open>Inl\<close> of an exception that leaves the function.
\<close>

definition guarded :: "options \<Rightarrow> jsstring \<Rightarrow> exn + json" where
  "guarded opts response =
     (if response = [] \<or> length (trim response) = 0 then Inr JNull
      else Inr (parse_text opts response))"

definition parseLLMJson :: "options \<Rightarrow> jsvalue \<Rightarrow> exn + json" where
  "parseLLMJson opts response =
     (case response of
        VNull \<Rightarrow> Inr JNull
      | VUndefined \<Rightarrow> Inr JNull
      | VString s \<Rightarrow> guarded opts s
      | VOther converted \<Rightarrow>
          (case converted of
             Inl e \<Rightarrow> Inr JNull
           | Inr s \<Rightarrow> guarded opts s))"

section \<open>Exceptions of the regular-expression engine\<close>

text \<open>
  A regular-expression operation can end in a \<open>RangeError\<close> when the engine exhausts its
  backtracking stack on a long subject. Whether it does is a property of the engine and
  not of the program, so it is a parameter: \<open>eng r s\<close> holds when running the pattern \<open>r\<close>
  over the subject \<open>s\<close> throws. The functions are translated once more with every exception
  as a value: an operation inside a \<open>try\<close> block falls to its \<open>catch\<close>, an operation outside
  one ends the function with \<open>Inl\<close>.
\<close>

type_synonym engine = "regex \<Rightarrow> jsstring \<Rightarrow> bool"

text \<open>The pattern that each step of \<open>fix_steps\<close> runs over \<open>fixed\<close>, in the same order.\<close>

definition fix_patterns :: "options \<Rightarrow> regex option list" where
  "fix_patterns opts =
    [Some re_bom,
     Some re_line_comment,
     Some re_block_comment,
     Some re_hash_comment,
     Some re_escaped_squote,
     Some re_escaped_dquote,
     (if allowPartial opts then Some (Chr dquote) else None),
     Some re_comma_before_close,
     Some re_comma_at_end,
     Some re_unquoted_key,
     Some re_single_quoted,
     Some (re_value_word (js ''True'')),
     Some (re_value_word (js ''False'')),
     Some (re_value_word (js ''None'')),
     Some (re_value_word (js ''undefined'')),
     Some (re_bare_word (js ''True'')),
     Some (re_bare_word (js ''False'')),
     Some (re_bare_word (js ''None'')),
     Some re_escaped_quote_in_string,
     Some re_dots,
     Some re_ellipsis]"

definition gives_up :: "engine \<Rightarrow> regex option \<Rightarrow> jsstring \<Rightarrow> bool" where
  "gives_up eng pattern s = (case pattern of None \<Rightarrow> False | Some r \<Rightarrow> eng r s)"

definition fix_step_x :: "engine \<Rightarrow> exn + jsstring \<Rightarrow> regex option \<times> (jsstring \<Rightarrow> jsstring) \<Rightarrow> exn + jsstring" where
  "fix_step_x eng fixed ps =
     (case fixed of
        Inl e \<Rightarrow> Inl e
      | Inr s \<Rightarrow> if gives_up eng (fst ps) s then Inl RangeError else Inr (snd ps s))"

definition fixCommonJsonIssues_x :: "engine \<Rightarrow> options \<Rightarrow> jsstring \<Rightarrow> exn + jsstring" where
  "fixCommonJsonIssues_x eng opts jsonStr =
     foldl (fix_step_x eng) (Inr jsonStr) (zip (fix_patterns opts) (fix_steps opts))"

text \<open>Each of the five loops of \<open>extractJson\<close> calls \<open>exec\<close> on the text at least once.\<close>

definition extractJson_x :: "engine \<Rightarrow> options \<Rightarrow> jsstring \<Rightarrow> exn + jsstring list" where
  "extractJson_x eng opts text =
     (if eng re_json_block text \<or> eng re_code_block text \<or> eng re_inline text
         \<or> eng re_objects text \<or> eng re_arrays text
      then Inl RangeError
      else Inr (extractJson opts text))"

definition tryParseJson_x :: "engine \<Rightarrow> options \<Rightarrow> jsstring \<Rightarrow> exn + parse_result" where
  "tryParseJson_x eng opts jsonStr =
    (if jsonStr = [] \<or> length (trim jsonStr) = 0 then Inr (parse_failed (js ''Empty JSON string''))
     else
       (let cleanJson = trim jsonStr
        in case JSON_parse cleanJson of
             Inr parsed \<Rightarrow> Inr (parsed_ok parsed)
           | Inl firstError \<Rightarrow>
               if attemptFix opts then
                 (case (case findJsonBoundaries opts cleanJson of
                          Some boundedJson \<Rightarrow>
                            if boundedJson \<noteq> [] then
                              (case JSON_parse boundedJson of Inr parsed \<Rightarrow> Some parsed | Inl e \<Rightarrow> None)
                            else None
                        | None \<Rightarrow> None) of
                    Some parsed \<Rightarrow> Inr (parsed_ok parsed)
                  | None \<Rightarrow>
                      (case fixCommonJsonIssues_x eng opts cleanJson of
                         Inl e \<Rightarrow> Inl e
                       | Inr cleanJson \<Rightarrow>
                           (case JSON_parse cleanJson of
                              Inr parsed \<Rightarrow> Inr (parsed_ok parsed)
                            | Inl secondError \<Rightarrow>
                                (case findJsonBoundaries opts cleanJson of
                                   Some extracted \<Rightarrow>
                                     if extracted \<noteq> [] then
                                       (case JSON_parse extracted of
                                          Inr parsed \<Rightarrow> Inr (parsed_ok parsed)
                                        | Inl e \<Rightarrow>
                                            Inr (parse_failed (js ''Failed to parse JSON after all attempts'')))
                                     else Inr (parse_failed (js ''Failed to parse JSON after all attempts''))
                                 | None \<Rightarrow>
                                     Inr (parse_failed (js ''Failed to parse JSON after all attempts''))))))
               else Inr (parse_failed (js ''Failed to parse JSON after all attempts''))))"

function unwrap_loop_x :: "engine \<Rightarrow> options \<Rightarrow> nat \<Rightarrow> json \<Rightarrow> nat \<Rightarrow> exn + json \<times> nat" where
  "unwrap_loop_x eng opts maxAttempts current attempts =
    (if attempts < maxAttempts \<and> truthy current \<and> typeof_object current then
       (case property current (js ''response'') of
          None \<Rightarrow> Inr (current, attempts)
        | Some response \<Rightarrow>
            if truthy response then
              (case response of
                 JStr str \<Rightarrow>
                   (case tryParseJson_x eng opts str of
                      Inl e \<Rightarrow> Inl e
                    | Inr parsed \<Rightarrow>
                        if success parsed
                        then unwrap_loop_x eng opts maxAttempts (data parsed) (attempts + 1)
                        else Inr (current, attempts))
               | JArr xs \<Rightarrow> unwrap_loop_x eng opts maxAttempts response (attempts + 1)
               | JObj ps \<Rightarrow> unwrap_loop_x eng opts maxAttempts response (attempts + 1)
               | JNull \<Rightarrow> unwrap_loop_x eng opts maxAttempts response (attempts + 1)
               | _ \<Rightarrow> Inr (current, attempts))
            else Inr (current, attempts))
     else Inr (current, attempts))"
  by pat_completeness auto
termination
  by (relation "measure (\<lambda>(eng, opts, maxAttempts, current, attempts). maxAttempts - attempts)") auto

definition unwrapResponse_x :: "engine \<Rightarrow> options \<Rightarrow> json \<Rightarrow> exn + json" where
  "unwrapResponse_x eng opts d = map_sum id fst (unwrap_loop_x eng opts 2 d 0)"

text \<open>The fast path stands in a \<open>try\<close> block: an exception there goes on to the main logic.\<close>

definition fast_path_x :: "engine \<Rightarrow> jsstring \<Rightarrow> json option" where
  "fast_path_x eng response = (if eng re_fast_path response then None else fast_path response)"

fun first_parsed_x :: "engine \<Rightarrow> options \<Rightarrow> jsstring list \<Rightarrow> exn + json option" where
  "first_parsed_x eng opts [] = Inr None"
| "first_parsed_x eng opts (jsonStr # others) =
     (case tryParseJson_x eng opts jsonStr of
        Inl e \<Rightarrow> Inl e
      | Inr result \<Rightarrow>
          if success result then Inr (Some (data result)) else first_parsed_x eng opts others)"

definition parse_text_x :: "engine \<Rightarrow> options \<Rightarrow> jsstring \<Rightarrow> exn + json" where
  "parse_text_x eng opts response =
    (case fast_path_x eng response of
       Some parsed \<Rightarrow> Inr parsed
     | None \<Rightarrow>
         (case tryParseJson_x eng opts response of
            Inl e \<Rightarrow> Inl e
          | Inr directResult \<Rightarrow>
              if success directResult then unwrapResponse_x eng opts (data directResult)
              else
                (case extractJson_x eng opts response of
                   Inl e \<Rightarrow> Inl e
                 | Inr candidates \<Rightarrow>
                     (case first_parsed_x eng opts (sort_key (\<lambda>a. - int (length a)) candidates) of
                        Inl e \<Rightarrow> Inl e
                      | Inr (Some d) \<Rightarrow> unwrapResponse_x eng opts d
                      | Inr None \<Rightarrow>
                          if attemptFix opts then
                            (case findJsonBoundaries opts response of
                               Some aggressiveJson \<Rightarrow>
                                 if aggressiveJson \<noteq> [] then
                                   (case tryParseJson_x eng opts aggressiveJson of
                                      Inl e \<Rightarrow> Inl e
                                    | Inr result \<Rightarrow>
                                        if success result then unwrapResponse_x eng opts (data result)
                                        else Inr failure_record)
                                 else Inr failure_record
                             | None \<Rightarrow> Inr failure_record)
                          else Inr failure_record))))"

definition guarded_x :: "engine \<Rightarrow> options \<Rightarrow> jsstring \<Rightarrow> exn + json" where
  "guarded_x eng opts response =
     (if response = [] \<or> length (trim response) = 0 then Inr JNull
      else parse_text_x eng opts response)"

definition parseLLMJson_x :: "engine \<Rightarrow> options \<Rightarrow> jsvalue \<Rightarrow> exn + json" where
  "parseLLMJson_x eng opts response =
     (case response of
        VNull \<Rightarrow> Inr JNull
      | VUndefined \<Rightarrow> Inr JNull
      | VString s \<Rightarrow> guarded_x eng opts s
      | VOther converted \<Rightarrow>
          (case converted of
             Inl e \<Rightarrow> Inr JNull
           | Inr s \<Rightarrow> guarded_x eng opts s))"

text \<open>
  Two engines: one that never gives up, and one that gives up on the brace pattern of
  \<open>extractJson\<close> for a subject of more than 12 characters (a small stand-in for the stack
  limit of a real engine, which long inputs reach).
\<close>

definition unlimited :: engine where
  "unlimited r s = False"

definition small_stack :: engine where
  "small_stack r s = (r = re_objects \<and> 12 < length s)"

section \<open>Auxiliary notions\<close>

text \<open>
  While the scan runs, \<open>endi\<close> is still \<open>-1\<close>, and a positive depth means an opening bracket
  was seen; when it stops, an end index was set only at depth zero.
\<close>

definition scan_running :: "scan_state \<Rightarrow> bool" where
  "scan_running st = (endi st = -1 \<and> (start st \<noteq> -1 \<or> depth st \<le> 0))"

definition scan_done :: "scan_state \<Rightarrow> bool" where
  "scan_done st = ((start st \<noteq> -1 \<or> depth st \<le> 0) \<and> (endi st = -1 \<or> depth st = 0))"

text \<open>A character that every match of a pattern must consume.\<close>

primrec requires :: "nat \<Rightarrow> regex \<Rightarrow> bool" where
  "requires x Empty = False"
| "requires x (Chr c) = (c = x)"
| "requires x (Class items) = False"
| "requires x (NotClass items) = False"
| "requires x AnyChar = False"
| "requires x InputStart = False"
| "requires x InputEnd = False"
| "requires x LineStart = False"
| "requires x LineEnd = False"
| "requires x WordBoundary = False"
| "requires x (Then a b) = (requires x a \<or> requires x b)"
| "requires x (Or a b) = (requires x a \<and> requires x b)"
| "requires x (Many a) = False"
| "requires x (ManyLazy a) = False"
| "requires x (Capture k a) = requires x a"



text \<open>Every entry of priority 4 is longer than 10 characters.\<close>

definition long_if_raw :: "candidate list \<Rightarrow> bool" where
  "long_if_raw results = list_all (\<lambda>r. snd r \<noteq> 4 \<or> 10 < length (fst r)) results"

text \<open>The valid JSON text \<open>{"response": "{'a': 1}"}\<close>.\<close>

definition quoted_envelope :: jsstring where
  \<open>quoted_envelope = js ''{"response": "{'' @ [squote] @ js ''a'' @ [squote] @ js '': 1}"}''\<close>

section \<open>Evaluation\<close>

text \<open>The defining equations by which concrete inputs are computed.\<close>

lemmas engine_defs = match_at_def eat_def check_def at_word_boundary_def capture_def captured_def
  search_def replace_first_def replace_all_def exec_all_def expand_def seq_def lit_def opt_def many1_def
  either_case_def lit_i_def in_class_def is_space_def is_word_def is_line_terminator_def js_def trim_def

lemmas fix_defs = fixCommonJsonIssues_def fix_steps_def close_string_def re_bom_def
  re_line_comment_def re_block_comment_def re_hash_comment_def re_escaped_squote_def
  re_escaped_dquote_def re_comma_before_close_def re_comma_at_end_def re_unquoted_key_def
  re_single_quoted_def re_value_word_def re_bare_word_def re_escaped_quote_in_string_def
  re_dots_def re_ellipsis_def

lemmas json_defs = JSON_parse_def skip_ws_def is_json_ws_def is_digit_def hex_digit_def hex4_def
  unescape_def digits_value_def int_part_def frac_part_def exp_part_def number_value_def
  parse_number_def parse_scalar_def

lemmas scan_defs = findJsonBoundaries_def scan_def scan_init_def scan_body_def substring_def
  substring_from_def

lemmas extract_defs = extractJson_def extract_results_def re_json_block_def re_code_block_def
  re_inline_def re_nested_def re_objects_def re_arrays_def starts_json_def

lemmas top_defs = parseLLMJson_def guarded_def parse_text_def fast_path_def re_fast_path_def
  tryParseJson_def parsed_ok_def parse_failed_def unwrapResponse_def truthy_def typeof_object_def
  property_def failure_record_def default_options_def

section \<open>Facts about the boundary scanner\<close>

lemma scan_body_running:
  "scan_running st \<Longrightarrow> scan_body i c st = (st', False) \<Longrightarrow> scan_running st'"
  by (auto simp: scan_running_def scan_body_def split: if_splits)

lemma scan_body_break:
  "scan_running st \<Longrightarrow> scan_body i c st = (st', True) \<Longrightarrow> scan_done st'"
  by (auto simp: scan_running_def scan_done_def scan_body_def split: if_splits)

lemma scan_from_done: "scan_running st \<Longrightarrow> scan_done (scan_from i t st)"
proof (induction t arbitrary: i st)
  case Nil
  then show ?case by (simp add: scan_running_def scan_done_def)
next
  case (Cons c cs)
  obtain st' brk where b: "scan_body i c st = (st', brk)" by (cases "scan_body i c st")
  show ?case
  proof (cases brk)
    case True
    with b Cons.prems show ?thesis by (simp add: scan_body_break)
  next
    case False
    with b Cons.prems have "scan_running st'" by (simp add: scan_body_running)
    then have "scan_done (scan_from (Suc i) cs st')" by (rule Cons.IH)
    with b False show ?thesis by simp
  qed
qed

section \<open>Facts about the matcher\<close>

text \<open>A match only moves forward: what is left after it was left before it.\<close>

lemma eat_rest: "st' \<in> set (eat P st) \<Longrightarrow> set (rest st') \<subseteq> set (rest st)"
  by (cases "rest st") (auto simp: eat_def split: if_splits)

lemma check_rest: "st' \<in> set (check b st) \<Longrightarrow> set (rest st') \<subseteq> set (rest st)"
  by (auto simp: check_def split: if_splits)

lemma many_rest:
  assumes m: "\<And>st st'. st' \<in> set (m st) \<Longrightarrow> set (rest st') \<subseteq> set (rest st)"
  shows "st' \<in> set (many m n st) \<Longrightarrow> set (rest st') \<subseteq> set (rest st)"
proof (induction n arbitrary: st)
  case 0
  then show ?case by simp
next
  case (Suc n)
  then show ?case using m by fastforce
qed

lemma many_lazy_rest:
  assumes m: "\<And>st st'. st' \<in> set (m st) \<Longrightarrow> set (rest st') \<subseteq> set (rest st)"
  shows "st' \<in> set (many_lazy m n st) \<Longrightarrow> set (rest st') \<subseteq> set (rest st)"
proof (induction n arbitrary: st)
  case 0
  then show ?case by simp
next
  case (Suc n)
  then show ?case using m by fastforce
qed

lemma rmatch_rest: "st' \<in> set (rmatch r st) \<Longrightarrow> set (rest st') \<subseteq> set (rest st)"
proof (induction r arbitrary: st st')
  case (Then a b)
  then obtain mid where "mid \<in> set (rmatch a st)" and "st' \<in> set (rmatch b mid)" by auto
  with Then.IH show ?case by blast
next
  case (Or a b)
  from Or.prems have "st' \<in> set (rmatch a st) \<or> st' \<in> set (rmatch b st)" by simp
  with Or.IH show ?case by blast
next
  case (Many a)
  then show ?case using many_rest [of "rmatch a"] by simp
next
  case (ManyLazy a)
  then show ?case using many_lazy_rest [of "rmatch a"] by simp
next
  case (Capture k a)
  from Capture.prems obtain m where "m \<in> set (rmatch a st)" and "rest st' = rest m"
    by (auto simp: capture_def)
  with Capture.IH show ?case by simp
qed (auto dest: eat_rest check_rest)

text \<open>A pattern does not match where a character it requires does not occur.\<close>

lemma requires_no_match: "requires x r \<Longrightarrow> x \<notin> set (rest st) \<Longrightarrow> rmatch r st = []"
proof (induction r arbitrary: st)
  case (Chr c)
  then show ?case by (auto simp: eat_def split: list.splits)
next
  case (Then a b)
  show ?case
  proof (cases "requires x a")
    case True
    with Then show ?thesis by simp
  next
    case False
    with Then.prems have b: "requires x b" by simp
    have "rmatch b mid = []" if "mid \<in> set (rmatch a st)" for mid
      using rmatch_rest [OF that] Then.prems(2) by (intro Then.IH(2) [OF b]) auto
    then show ?thesis by simp
  qed
qed simp_all

lemma match_at_none: "requires x r \<Longrightarrow> x \<notin> set s \<Longrightarrow> match_at r bef s = None"
  by (simp add: match_at_def requires_no_match)



lemma search_from_none: "requires x r \<Longrightarrow> x \<notin> set s \<Longrightarrow> search_from r bef s = None"
  by (induction s arbitrary: bef) (simp_all add: match_at_none)


lemma exec_from_nil: "requires x r \<Longrightarrow> x \<notin> set s \<Longrightarrow> exec_from r 0 bef s = []"
  by (induction s arbitrary: bef) (simp_all add: match_at_none)

lemma exec_all_nil: "requires x r \<Longrightarrow> x \<notin> set s \<Longrightarrow> exec_all r s = []"
  by (simp add: exec_all_def exec_from_nil)

section \<open>Facts about the repair steps\<close>







section \<open>Facts about the parse pipeline and the unwrapper\<close>

lemma JSON_parse_Nil: "JSON_parse [] = Inl SyntaxError"
  by (simp add: JSON_parse_def skip_ws_def)

lemma tryParseJson_strict:
  assumes "JSON_parse (trim s) = Inr v"
  shows "tryParseJson opts s = parsed_ok v"
proof -
  from assms have "trim s \<noteq> []" by (auto simp: JSON_parse_Nil)
  moreover from this have "s \<noteq> []" by (auto simp: trim_def)
  ultimately show ?thesis using assms by (simp add: tryParseJson_def)
qed

lemma tryParseJson_no_fix:
  "\<not> attemptFix opts \<Longrightarrow> JSON_parse (trim s) = Inl e \<Longrightarrow> \<not> success (tryParseJson opts s)"
  by (simp add: tryParseJson_def parse_failed_def Let_def)

lemma unwrap_no_response:
  "property v (js ''response'') = None \<Longrightarrow> unwrapResponse opts v = v"
  by (simp add: unwrapResponse_def)

lemma property_object: "property v name = Some r \<Longrightarrow> truthy v \<and> typeof_object v"
  by (cases v) (simp_all add: property_def truthy_def typeof_object_def)

lemma unwrap_loop_stop:
  "descend opts current = None \<or> \<not> attempts < maxAttempts
   \<Longrightarrow> unwrap_loop opts maxAttempts current attempts = (current, attempts)"
  by (subst unwrap_loop.simps)
     (auto simp: descend_def Let_def simp del: unwrap_loop.simps
        split: option.splits json.splits if_splits)

lemma unwrap_loop_go:
  "descend opts current = Some next \<Longrightarrow> attempts < maxAttempts
   \<Longrightarrow> unwrap_loop opts maxAttempts current attempts
       = unwrap_loop opts maxAttempts next (attempts + 1)"
  by (subst unwrap_loop.simps)
     (auto simp: descend_def Let_def simp del: unwrap_loop.simps dest: property_object
        split: option.splits json.splits if_splits)

lemma unwrap_loop_descents:
  "attempts \<le> maxAttempts \<Longrightarrow> unwrap_loop opts maxAttempts current attempts = (r, a)
   \<Longrightarrow> attempts \<le> a \<and> a \<le> maxAttempts \<and> descents opts (a - attempts) current = Some r
       \<and> (a = maxAttempts \<or> descend opts r = None)"
proof (induction "maxAttempts - attempts" arbitrary: current attempts)
  case 0
  then have "\<not> attempts < maxAttempts" by simp
  then have "unwrap_loop opts maxAttempts current attempts = (current, attempts)"
    by (intro unwrap_loop_stop) simp
  with 0 show ?case by (simp del: unwrap_loop.simps)
next
  case (Suc n)
  then have lt: "attempts < maxAttempts" by simp
  show ?case
  proof (cases "descend opts current")
    case None
    then have "unwrap_loop opts maxAttempts current attempts = (current, attempts)"
      by (intro unwrap_loop_stop) simp
    with None Suc.prems show ?thesis by (simp del: unwrap_loop.simps)
  next
    case (Some nxt)
    from Some lt have "unwrap_loop opts maxAttempts current attempts
        = unwrap_loop opts maxAttempts nxt (attempts + 1)"
      by (rule unwrap_loop_go)
    with Suc.prems(2) have eq: "unwrap_loop opts maxAttempts nxt (attempts + 1) = (r, a)"
      by (simp del: unwrap_loop.simps)
    from Suc.hyps(2) lt have n: "n = maxAttempts - (attempts + 1)" by simp
    from lt have le: "attempts + 1 \<le> maxAttempts" by simp
    have ih: "attempts + 1 \<le> a \<and> a \<le> maxAttempts
        \<and> descents opts (a - (attempts + 1)) nxt = Some r
        \<and> (a = maxAttempts \<or> descend opts r = None)"
      by (rule Suc.hyps(1) [OF n le eq])
    then have "attempts + 1 \<le> a" by blast
    then have "a - attempts = Suc (a - (attempts + 1))" by arith
    with ih Some show ?thesis by (simp del: unwrap_loop.simps)
  qed
qed

lemma trim_blank: "list_all is_space s \<Longrightarrow> trim s = []"
  by (auto simp: trim_def list_all_iff dest: set_dropWhileD)

section \<open>Facts about the candidate extractor\<close>

lemma collect_long_if_raw:
  assumes "\<And>c. priority = 4 \<Longrightarrow> ok c \<Longrightarrow> 10 < length c"
  shows "long_if_raw results \<Longrightarrow> long_if_raw (collect opts ok priority ms results)"
proof (induction ms arbitrary: results)
  case Nil
  then show ?case by simp
next
  case (Cons m ms)
  show ?case
  proof (cases "maxBlocks opts \<le> int (length results)")
    case True
    with Cons.prems show ?thesis by simp
  next
    case False
    show ?thesis
    proof (cases "trim (captured m 1) \<noteq> [] \<and> ok (trim (captured m 1))")
      case True
      with assms have "priority \<noteq> 4 \<or> 10 < length (trim (captured m 1))" by blast
      with Cons.prems have "long_if_raw (results @ [(trim (captured m 1), priority)])"
        by (simp add: long_if_raw_def)
      then have "long_if_raw (collect opts ok priority ms (results @ [(trim (captured m 1), priority)]))"
        by (rule Cons.IH)
      with False True show ?thesis by (simp add: Let_def)
    next
      case no: False
      from Cons.prems have "long_if_raw (collect opts ok priority ms results)" by (rule Cons.IH)
      with False no show ?thesis by (auto simp: Let_def)
    qed
  qed
qed

lemma extract_results_long_if_raw: "long_if_raw (extract_results opts t)"
proof -
  have 0: "long_if_raw []" by (simp add: long_if_raw_def)
  have s: "long_if_raw (sort_key snd rs)" if "long_if_raw rs" for rs
    using that by (simp add: long_if_raw_def list_all_iff)
  show ?thesis
    unfolding extract_results_def Let_def
    by (auto intro!: s collect_long_if_raw 0)
qed

lemma collect_none:
  "list_all (\<lambda>m. \<not> ok (trim (captured m 1))) ms \<Longrightarrow> collect opts ok priority ms results = results"
  by (induction ms arbitrary: results) (simp_all add: Let_def)

lemma no_backtick_no_blocks:
  assumes "96 \<notin> set t"
  shows "exec_all re_json_block t = []" and "exec_all re_code_block t = []"
    and "exec_all re_inline t = []" and "search re_fast_path t = None"
proof -
  show "exec_all re_json_block t = []"
    by (rule exec_all_nil [where x = 96]) (simp_all add: re_json_block_def seq_def lit_def js_def assms)
  show "exec_all re_code_block t = []"
    by (rule exec_all_nil [where x = 96]) (simp_all add: re_code_block_def seq_def lit_def js_def assms)
  show "exec_all re_inline t = []"
    by (rule exec_all_nil [where x = 96]) (simp_all add: re_inline_def seq_def assms)
  show "search re_fast_path t = None"
    unfolding search_def
    by (rule search_from_none [where x = 96]) (simp_all add: re_fast_path_def seq_def lit_def js_def assms)
qed

section \<open>Facts about the model with exceptions\<close>

text \<open>With an engine that never gives up, it is the model without exceptions.\<close>

lemma fix_x_unlimited: "fixCommonJsonIssues_x unlimited opts s = Inr (fixCommonJsonIssues opts s)"
proof -
  have "foldl (fix_step_x unlimited) (Inr s) (zip ps steps) = Inr (foldl (\<lambda>fixed step. step fixed) s steps)"
    if "length ps = length steps" for ps steps
    using that
    by (induction ps steps arbitrary: s rule: list_induct2)
       (simp_all add: fix_step_x_def gives_up_def unlimited_def split: option.splits)
  moreover have "length (fix_patterns opts) = length (fix_steps opts)"
    by (simp add: fix_patterns_def fix_steps_def)
  ultimately show ?thesis by (simp add: fixCommonJsonIssues_x_def fixCommonJsonIssues_def)
qed

lemma tryParseJson_x_unlimited: "tryParseJson_x unlimited opts s = Inr (tryParseJson opts s)"
  by (simp add: tryParseJson_x_def tryParseJson_def fix_x_unlimited Let_def
      split: sum.splits option.splits)

lemma unwrap_loop_x_unlimited:
  "unwrap_loop_x unlimited opts m c a = Inr (unwrap_loop opts m c a)"
proof (induction opts m c a rule: unwrap_loop.induct)
  case (1 opts maxAttempts current attempts)
  show ?case
    apply (subst unwrap_loop_x.simps)
    apply (subst unwrap_loop.simps)
    using 1
    by (auto simp: tryParseJson_x_unlimited Let_def
        simp del: unwrap_loop.simps unwrap_loop_x.simps split: option.splits json.splits)
qed

lemma unwrapResponse_x_unlimited: "unwrapResponse_x unlimited opts d = Inr (unwrapResponse opts d)"
  by (simp add: unwrapResponse_x_def unwrapResponse_def unwrap_loop_x_unlimited
      del: unwrap_loop.simps unwrap_loop_x.simps)

lemma first_parsed_x_unlimited: "first_parsed_x unlimited opts cs = Inr (first_parsed opts cs)"
  by (induction cs) (simp_all add: tryParseJson_x_unlimited Let_def)

lemma parseLLMJson_x_unlimited: "parseLLMJson_x unlimited opts v = parseLLMJson opts v"
proof -
  have "parse_text_x unlimited opts s = Inr (parse_text opts s)" for s
    by (simp add: parse_text_x_def parse_text_def fast_path_x_def extractJson_x_def
        tryParseJson_x_unlimited unwrapResponse_x_unlimited first_parsed_x_unlimited Let_def
        unlimited_def split: option.splits)
  then show ?thesis
    by (simp add: parseLLMJson_x_def parseLLMJson_def guarded_x_def guarded_def
        split: jsvalue.splits sum.splits)
qed


lemmas x_defs = parseLLMJson_x_def guarded_x_def parse_text_x_def fast_path_x_def tryParseJson_x_def
  extractJson_x_def fixCommonJsonIssues_x_def fix_patterns_def fix_step_x_def gives_up_def
  unwrapResponse_x_def small_stack_def

section \<open>Strictly valid input\<close>

text \<open>
  C1, as stated, fails: for the valid JSON text \<open>{"response":{"a":1}}\<close> the function does
  not return the native parse \<open>{response: {a: 1}}\<close> but the value under its \<open>response\<close>
  member, \<open>{a: 1}\<close>, because every value of the whole-input parse goes through
  \<open>unwrapResponse\<close>.
\<close>

theorem parseLLMJson_valid_json_not_native:
  \<open>JSON_parse (js ''{"response":{"a":1}}'') = Inr (JObj [(js ''response'', JObj [(js ''a'', JNum 1)])])
   \<and> parseLLMJson default_options (VString (js ''{"response":{"a":1}}'')) = Inr (JObj [(js ''a'', JNum 1)])
   \<and> parseLLMJson default_options (VString (js ''{"response":{"a":1}}''))
       \<noteq> JSON_parse (js ''{"response":{"a":1}}'')\<close>
  by (simp add: top_defs engine_defs json_defs)

text \<open>
  C1, amended. For every input string whose trimmed text is strictly valid JSON (the
  function parses \<open>response.trim()\<close>) and on which the fast path does not return, and for
  any options: \<open>tryParseJson\<close> on the whole input succeeds with the native parse of that
  text, \<open>parseLLMJson\<close> returns \<open>unwrapResponse\<close> of that value, and when the value has no
  \<open>response\<close> member this is the native parse itself.
\<close>

theorem parseLLMJson_valid_json_unwrapped:
  assumes "JSON_parse (trim response) = Inr v" and "fast_path response = None"
  shows "tryParseJson opts response = parsed_ok v
         \<and> parseLLMJson opts (VString response) = Inr (unwrapResponse opts v)
         \<and> (property v (js ''response'') = None \<longrightarrow> parseLLMJson opts (VString response) = Inr v)"
proof -
  from assms(1) have "trim response \<noteq> []" by (auto simp: JSON_parse_Nil)
  then have "response \<noteq> []" by (auto simp: trim_def)
  with \<open>trim response \<noteq> []\<close> assms show ?thesis
    by (simp add: parseLLMJson_def guarded_def parse_text_def tryParseJson_strict parsed_ok_def
        unwrap_no_response)
qed

text \<open>
  C1, amended, at two inputs. The first, \<open> {"a": [1, "x"]} \<close> with a space on either side,
  has no \<open>response\<close> member and comes back as parsed. The second is the valid text of an
  object whose \<open>response\<close> member is the string \<open>{'a': 1}\<close> in single quotes: the unwrapper
  runs the parse pipeline, repair included, on that string, and the result is \<open>{a: 1}\<close> with
  \<open>attemptFix\<close> true and the object as parsed with \<open>attemptFix\<close> false.
\<close>

theorem parseLLMJson_valid_json_unwrapped_witness:
  \<open>JSON_parse (trim (js '' {"a": [1, "x"]} '')) = Inr (JObj [(js ''a'', JArr [JNum 1, JStr (js ''x'')])])
   \<and> fast_path (js '' {"a": [1, "x"]} '') = None
   \<and> property (JObj [(js ''a'', JArr [JNum 1, JStr (js ''x'')])]) (js ''response'') = None
   \<and> parseLLMJson default_options (VString (js '' {"a": [1, "x"]} ''))
       = Inr (JObj [(js ''a'', JArr [JNum 1, JStr (js ''x'')])])
   \<and> JSON_parse (trim quoted_envelope)
       = Inr (JObj [(js ''response'', JStr (js ''{'' @ [squote] @ js ''a'' @ [squote] @ js '': 1}''))])
   \<and> fast_path quoted_envelope = None
   \<and> parseLLMJson default_options (VString quoted_envelope) = Inr (JObj [(js ''a'', JNum 1)])
   \<and> parseLLMJson (default_options\<lparr>attemptFix := False\<rparr>) (VString quoted_envelope)
       = Inr (JObj [(js ''response'', JStr (js ''{'' @ [squote] @ js ''a'' @ [squote] @ js '': 1}''))])\<close>
proof -
  have p: \<open>JSON_parse (trim (js '' {"a": [1, "x"]} ''))
            = Inr (JObj [(js ''a'', JArr [JNum 1, JStr (js ''x'')])])\<close>
    by (simp add: json_defs engine_defs)
  have f: \<open>fast_path (js '' {"a": [1, "x"]} '') = None\<close>
    by (simp add: fast_path_def re_fast_path_def engine_defs)
  have n: \<open>property (JObj [(js ''a'', JArr [JNum 1, JStr (js ''x'')])]) (js ''response'') = None\<close>
    by (simp add: property_def js_def)
  from parseLLMJson_valid_json_unwrapped [OF p f, of default_options] n
  have r: \<open>parseLLMJson default_options (VString (js '' {"a": [1, "x"]} ''))
          = Inr (JObj [(js ''a'', JArr [JNum 1, JStr (js ''x'')])])\<close>
    by blast
  have p': \<open>JSON_parse (trim quoted_envelope)
       = Inr (JObj [(js ''response'', JStr (js ''{'' @ [squote] @ js ''a'' @ [squote] @ js '': 1}''))])\<close>
    by (simp add: quoted_envelope_def json_defs engine_defs)
  have f': \<open>fast_path quoted_envelope = None\<close>
    by (simp add: quoted_envelope_def fast_path_def re_fast_path_def engine_defs)
  have u1: \<open>unwrapResponse default_options
               (JObj [(js ''response'', JStr (js ''{'' @ [squote] @ js ''a'' @ [squote] @ js '': 1}''))])
             = JObj [(js ''a'', JNum 1)]\<close>
    by (simp add: top_defs engine_defs json_defs scan_defs fix_defs)
  have u2: \<open>unwrapResponse (default_options\<lparr>attemptFix := False\<rparr>)
               (JObj [(js ''response'', JStr (js ''{'' @ [squote] @ js ''a'' @ [squote] @ js '': 1}''))])
             = JObj [(js ''response'', JStr (js ''{'' @ [squote] @ js ''a'' @ [squote] @ js '': 1}''))]\<close>
    by (simp add: top_defs engine_defs json_defs scan_defs fix_defs)
  from parseLLMJson_valid_json_unwrapped [OF p' f', of default_options] u1
  have r1: \<open>parseLLMJson default_options (VString quoted_envelope) = Inr (JObj [(js ''a'', JNum 1)])\<close>
    by simp
  from parseLLMJson_valid_json_unwrapped [OF p' f', of \<open>default_options\<lparr>attemptFix := False\<rparr>\<close>] u2
  have r2: \<open>parseLLMJson (default_options\<lparr>attemptFix := False\<rparr>) (VString quoted_envelope)
       = Inr (JObj [(js ''response'', JStr (js ''{'' @ [squote] @ js ''a'' @ [squote] @ js '': 1}''))])\<close>
    by simp
  from p f n r p' f' r1 r2 show ?thesis by blast
qed


section \<open>Idempotence of the repair steps\<close>




section \<open>The boundary scanner: bracket balance\<close>

text \<open>
  C3. With \<open>allowPartial\<close> false the scanner is meant to return only spans whose brackets
  are matched. A closing bracket before the first opening one drives the depth below
  zero, and the scan then stops one level early: on the four characters
  \<open>}{{}\<close> it returns \<open>{{}\<close>, whose first bracket is never closed.
\<close>

theorem findJsonBoundaries_unmatched_span:
  "findJsonBoundaries (default_options\<lparr>allowPartial := False\<rparr>) (js ''}{{}'') = Some (js ''{{}'')
   \<and> \<not> brackets_matched (js ''{{}'')"
  by (simp add: findJsonBoundaries_def scan_def scan_init_def scan_body_def default_options_def
      js_def substring_def brackets_matched_def)

section \<open>The option preferFirst\<close>

text \<open>
  C4. On the input \<open>Here is your data: {"x": 1} and more text {"x": 2}\<close> the function returns
  \<open>{x: 1}\<close> with \<open>preferFirst\<close> true and also with \<open>preferFirst\<close> false, where \<open>{x: 2}\<close> is
  expected: the boundary scan of the whole-input parse finds the first object before any
  candidate is looked at. And where the candidates are reached, they are tried longest
  first, not in the order of their priorities: with \<open>preferFirst\<close> true (and \<open>attemptFix\<close>
  false) the text of a block labelled \<open>JSON\<close> holding \<open>{"a":1}\<close>, followed by
  \<open>{"k": "value1"}\<close>, has the candidates \<open>{"a":1}\<close> (priority 1) and \<open>{"k": "value1"}\<close>
  (priority 4) in this order, and the result is \<open>{k: "value1"}\<close>.
\<close>

theorem parseLLMJson_preferFirst_ignored:
  \<open>parseLLMJson (default_options\<lparr>preferFirst := True\<rparr>)
       (VString (js ''Here is your data: {"x": 1} and more text {"x": 2}''))
     = Inr (JObj [(js ''x'', JNum 1)])
   \<and> parseLLMJson (default_options\<lparr>preferFirst := False\<rparr>)
       (VString (js ''Here is your data: {"x": 1} and more text {"x": 2}''))
     = Inr (JObj [(js ''x'', JNum 1)])
   \<and> extract_results (default_options\<lparr>attemptFix := False\<rparr>)
       (js ''```JSON\<newline>{"a":1}\<newline>``` {"k": "value1"}'')
     = [(js ''{"a":1}'', 1), (js ''{"k": "value1"}'', 4)]
   \<and> parseLLMJson (default_options\<lparr>attemptFix := False\<rparr>)
       (VString (js ''```JSON\<newline>{"a":1}\<newline>``` {"k": "value1"}''))
     = Inr (JObj [(js ''k'', JStr (js ''value1''))])\<close>
  by (simp add: top_defs engine_defs json_defs scan_defs extract_defs)

section \<open>The fast path\<close>

text \<open>
  C5. When the fast path fires, the result is meant to be the unwrapped parse of the
  block's body, as on every other path. The fast path returns the parse as it is: for a
  block labelled \<open>json\<close> with the body \<open>{"response":{"a":1}}\<close> the result is
  \<open>{response: {a: 1}}\<close>, while \<open>unwrapResponse\<close> of that value is \<open>{a: 1}\<close>, which is also what
  the function returns for the same block labelled \<open>JSON\<close>, where the fast path does not
  fire.
\<close>

theorem parseLLMJson_fast_path_not_unwrapped:
  \<open>fast_path (js ''```json\<newline>{"response":{"a":1}}\<newline>```'')
     = Some (JObj [(js ''response'', JObj [(js ''a'', JNum 1)])])
   \<and> parseLLMJson default_options (VString (js ''```json\<newline>{"response":{"a":1}}\<newline>```''))
     = Inr (JObj [(js ''response'', JObj [(js ''a'', JNum 1)])])
   \<and> unwrapResponse default_options (JObj [(js ''response'', JObj [(js ''a'', JNum 1)])])
     = JObj [(js ''a'', JNum 1)]
   \<and> parseLLMJson default_options (VString (js ''```JSON\<newline>{"response":{"a":1}}\<newline>```''))
     = Inr (JObj [(js ''a'', JNum 1)])\<close>
  by (simp add: top_defs engine_defs json_defs scan_defs extract_defs)

section \<open>Truncated input\<close>

text \<open>
  C6. For the input \<open>{"name": "Jo\<close>, cut off inside a string: with \<open>allowPartial\<close> false (and
  the other options at their defaults) the function returns the failure record; with
  \<open>allowPartial\<close> true it returns the object \<open>{name: "Jo"}\<close>.
\<close>

theorem parseLLMJson_truncated_string:
  \<open>parseLLMJson (default_options\<lparr>allowPartial := False\<rparr>) (VString (js ''{"name": "Jo''))
     = Inr failure_record
   \<and> parseLLMJson (default_options\<lparr>allowPartial := True\<rparr>) (VString (js ''{"name": "Jo''))
     = Inr (JObj [(js ''name'', JStr (js ''Jo''))])\<close>
  by (simp add: top_defs engine_defs json_defs scan_defs fix_defs extract_defs)

section \<open>Termination of the unwrapper\<close>

text \<open>
  C7. The loop of \<open>unwrapResponse\<close> is a total function (its recursion decreases
  \<open>maxAttempts - attempts\<close>). For every parsed value, every bound \<open>maxAttempts\<close> and any
  options, the value it returns is the value reached from the input after a number of
  envelope descents that is at most \<open>maxAttempts\<close>, however deep the \<open>response\<close> members
  are nested; that number is the final \<open>attempts\<close>, and the loop stops there because the
  bound is reached or no further descent is possible.
\<close>

theorem unwrapResponse_bounded_descents:
  "snd (unwrap_loop opts maxAttempts d 0) \<le> maxAttempts
   \<and> descents opts (snd (unwrap_loop opts maxAttempts d 0)) d = Some (fst (unwrap_loop opts maxAttempts d 0))
   \<and> (snd (unwrap_loop opts maxAttempts d 0) = maxAttempts
        \<or> descend opts (fst (unwrap_loop opts maxAttempts d 0)) = None)"
  using unwrap_loop_descents [of 0 maxAttempts opts d
      "fst (unwrap_loop opts maxAttempts d 0)" "snd (unwrap_loop opts maxAttempts d 0)"]
  by (simp del: unwrap_loop.simps)


section \<open>Exceptions that leave the function\<close>

text \<open>
  For \<open>null\<close>, for \<open>undefined\<close>, for an input that cannot be converted to a string, and for
  an input whose string form is empty or consists of white space only, the function
  returns \<open>null\<close> whatever the engine does: no regular expression is run.
\<close>

lemma parseLLMJson_x_no_input:
  "parseLLMJson_x eng opts VNull = Inr JNull"
  "parseLLMJson_x eng opts VUndefined = Inr JNull"
  "parseLLMJson_x eng opts (VOther (Inl e)) = Inr JNull"
  "list_all is_space s \<Longrightarrow> parseLLMJson_x eng opts (VString s) = Inr JNull"
  "list_all is_space s \<Longrightarrow> parseLLMJson_x eng opts (VOther (Inr s)) = Inr JNull"
  by (simp_all add: parseLLMJson_x_def guarded_x_def trim_blank)

text \<open>
  C8. The function is meant never to raise. The exceptions of \<open>JSON.parse\<close>, of the string
  conversion and of the fast path are caught, but the regular expressions of
  \<open>fixCommonJsonIssues\<close> and of \<open>extractJson\<close> run outside every \<open>try\<close> block. With an engine
  that gives up on the brace pattern, the input \<open>{aaaaaaaaaaaaaaa\<close> ends the function with a
  \<open>RangeError\<close> instead of a returned value; an engine that gives up in the fast path only
  does no harm, since that call is guarded.
\<close>

theorem parseLLMJson_regex_error_escapes:
  \<open>parseLLMJson_x small_stack default_options (VString (js ''{aaaaaaaaaaaaaaa'')) = Inl RangeError
   \<and> parseLLMJson_x (\<lambda>r s. r = re_fast_path) default_options (VString (js ''{"a":1}''))
       = Inr (JObj [(js ''a'', JNum 1)])\<close>
  by (simp add: x_defs top_defs engine_defs json_defs scan_defs fix_defs extract_defs)

section \<open>Short candidates\<close>

text \<open>
  C9, as stated, fails in its last part: a JSON-shaped substring of at most 10 characters
  is recovered without \<open>attemptFix\<close> when it stands in a code span, whose candidates have
  no length bound. With \<open>attemptFix\<close> false, the input of \<open>{"x":1}\<close> between two backticks
  does not parse itself, has the single candidate \<open>{"x":1}\<close> of priority 3, and the
  function returns \<open>{x: 1}\<close>. With \<open>attemptFix\<close> true, the input \<open>Here: {"x":1}\<close> is
  recovered by the boundary scan inside the parse of the whole input, before the final
  fallback is reached.
\<close>

theorem short_candidate_recovered_without_fix:
  \<open>attemptFix (default_options\<lparr>attemptFix := False\<rparr>) = False
   \<and> JSON_parse (trim (js ''`{"x":1}`'')) = Inl SyntaxError
   \<and> extract_results (default_options\<lparr>attemptFix := False\<rparr>) (js ''`{"x":1}`'') = [(js ''{"x":1}'', 3)]
   \<and> parseLLMJson (default_options\<lparr>attemptFix := False\<rparr>) (VString (js ''`{"x":1}`''))
       = Inr (JObj [(js ''x'', JNum 1)])
   \<and> tryParseJson default_options (js ''Here: {"x":1}'') = parsed_ok (JObj [(js ''x'', JNum 1)])\<close>
  by (simp add: top_defs engine_defs json_defs scan_defs extract_defs)

text \<open>
  C9, amended. A candidate of priority 4 is admitted only if its trimmed length is
  strictly greater than 10 characters. Consequently, when \<open>attemptFix\<close> is false, an input
  without a backtick that is not blank, does not itself parse, and whose matches of the
  brace and bracket patterns are all at most 10 characters long after trimming, yields
  the failure record.
\<close>

theorem raw_candidates_longer_than_10:
  "(\<forall>c. (c, 4) \<in> set (extract_results opts t) \<longrightarrow> 10 < length c)
   \<and> (\<not> attemptFix opts \<and> 96 \<notin> set t \<and> trim t \<noteq> [] \<and> JSON_parse (trim t) = Inl e
        \<and> list_all (\<lambda>m. length (trim (captured m 1)) \<le> 10) (exec_all re_objects t @ exec_all re_arrays t)
      \<longrightarrow> parseLLMJson opts (VString t) = Inr failure_record)"
proof (intro conjI allI impI)
  fix c
  assume "(c, 4) \<in> set (extract_results opts t)"
  with extract_results_long_if_raw [of opts t] show "10 < length c"
    by (auto simp: long_if_raw_def list_all_iff)
next
  assume a: "\<not> attemptFix opts \<and> 96 \<notin> set t \<and> trim t \<noteq> [] \<and> JSON_parse (trim t) = Inl e
        \<and> list_all (\<lambda>m. length (trim (captured m 1)) \<le> 10) (exec_all re_objects t @ exec_all re_arrays t)"
  then have nb: "96 \<notin> set t" by simp
  from a have "t \<noteq> []" by (auto simp: trim_def)
  from a have o: "list_all (\<lambda>m. \<not> 10 < length (trim (captured m 1))) (exec_all re_objects t)"
    and r: "list_all (\<lambda>m. \<not> 10 < length (trim (captured m 1))) (exec_all re_arrays t)"
    by (simp_all add: list_all_iff not_less)
  have "extract_results opts t = []"
    by (simp add: extract_results_def no_backtick_no_blocks [OF nb] collect_none [OF o] collect_none [OF r])
  then have e: "extractJson opts t = []" by (simp add: extractJson_def)
  from a have f: "\<not> success (tryParseJson opts t)"
    using tryParseJson_no_fix [of opts t e] by blast
  from a \<open>t \<noteq> []\<close> e f show "parseLLMJson opts (VString t) = Inr failure_record"
    by (simp add: parseLLMJson_def guarded_def parse_text_def fast_path_def no_backtick_no_blocks [OF nb])
qed

text \<open>
  C9, amended, at two inputs: \<open>x {"k": "value1"}\<close>, which has a candidate of priority 4,
  and \<open>Here: {"x":1}\<close> with \<open>attemptFix\<close> false, whose only match is short.
\<close>

theorem raw_candidates_longer_than_10_witness:
  \<open>(js ''{"k": "value1"}'', 4) \<in> set (extract_results default_options (js ''x {"k": "value1"}''))
   \<and> 10 < length (js ''{"k": "value1"}'')
   \<and> attemptFix (default_options\<lparr>attemptFix := False\<rparr>) = False
   \<and> 96 \<notin> set (js ''Here: {"x":1}'')
   \<and> trim (js ''Here: {"x":1}'') \<noteq> []
   \<and> JSON_parse (trim (js ''Here: {"x":1}'')) = Inl SyntaxError
   \<and> list_all (\<lambda>m. length (trim (captured m 1)) \<le> 10)
        (exec_all re_objects (js ''Here: {"x":1}'') @ exec_all re_arrays (js ''Here: {"x":1}''))
   \<and> parseLLMJson (default_options\<lparr>attemptFix := False\<rparr>) (VString (js ''Here: {"x":1}''))
       = Inr failure_record\<close>
proof -
  have 1: \<open>(js ''{"k": "value1"}'', 4) \<in> set (extract_results default_options (js ''x {"k": "value1"}''))\<close>
    by (simp add: extract_defs engine_defs default_options_def)
  have 2: \<open>attemptFix (default_options\<lparr>attemptFix := False\<rparr>) = False\<close>
    by simp
  have 3: \<open>96 \<notin> set (js ''Here: {"x":1}'')\<close>
    by (simp add: js_def)
  have 4: \<open>trim (js ''Here: {"x":1}'') \<noteq> []\<close>
    by (simp add: engine_defs)
  have 5: \<open>JSON_parse (trim (js ''Here: {"x":1}'')) = Inl SyntaxError\<close>
    by (simp add: engine_defs json_defs)
  have 6: \<open>list_all (\<lambda>m. length (trim (captured m 1)) \<le> 10)
        (exec_all re_objects (js ''Here: {"x":1}'') @ exec_all re_arrays (js ''Here: {"x":1}''))\<close>
    by (simp add: extract_defs engine_defs)
  from 1 raw_candidates_longer_than_10 [of default_options \<open>js ''x {"k": "value1"}''\<close>]
  have 7: \<open>10 < length (js ''{"k": "value1"}'')\<close> by blast
  from 2 3 4 5 6
    raw_candidates_longer_than_10 [of \<open>default_options\<lparr>attemptFix := False\<rparr>\<close> \<open>js ''Here: {"x":1}''\<close> SyntaxError]
  have 8: \<open>parseLLMJson (default_options\<lparr>attemptFix := False\<rparr>) (VString (js ''Here: {"x":1}''))
       = Inr failure_record\<close> by blast
  from 1 2 3 4 5 6 7 8 show ?thesis by blast
qed

section \<open>The closing character of a partial span\<close>

text \<open>
  C10. When \<open>allowPartial\<close> is true and the scan ends with positive depth,
  \<open>findJsonBoundaries\<close> returns the text from the first opening bracket on with the single
  character \<open>}\<close> appended, whichever bracket is open: a truncated array gets \<open>}\<close>, not \<open>]\<close>.
\<close>

theorem findJsonBoundaries_partial_appends_brace:
  assumes "allowPartial opts" and "0 < depth (scan t)"
  shows "findJsonBoundaries opts t = Some (substring_from t (start (scan t)) @ js ''}'')"
proof -
  have "scan_done (scan t)"
    unfolding scan_def by (rule scan_from_done) (simp add: scan_running_def scan_init_def)
  with assms(2) have "endi (scan t) = -1" and "start (scan t) \<noteq> -1"
    by (auto simp: scan_done_def)
  with assms show ?thesis by (simp add: findJsonBoundaries_def Let_def)
qed

text \<open>C10 at the truncated array \<open>[1, 2\<close>.\<close>

theorem findJsonBoundaries_partial_appends_brace_witness:
  "allowPartial (default_options\<lparr>allowPartial := True\<rparr>) \<and> 0 < depth (scan (js ''[1, 2''))
   \<and> findJsonBoundaries (default_options\<lparr>allowPartial := True\<rparr>) (js ''[1, 2'') = Some (js ''[1, 2}'')"
  using findJsonBoundaries_partial_appends_brace [of "default_options\<lparr>allowPartial := True\<rparr>" "js ''[1, 2''"]
  by (simp add: scan_def scan_init_def scan_body_def default_options_def js_def substring_from_def)

end
